theory Spec2Isabelle
  imports Main "HOL-Library.Sublist"
begin

section \<open>Data model of \<open>src/helpers/native-tools-manager.ts\<close>\<close>

text \<open>
  The environment \<open>Env\<close>: every variable the manager reads is an optional string
  (\<open>None\<close> is JavaScript's \<open>undefined\<close>).
\<close>

record Env =
  ENABLE_GEMINI_NATIVE_TOOLS :: "string option"
  ENABLE_GOOGLE_SEARCH :: "string option"
  ENABLE_URL_CONTEXT :: "string option"
  GEMINI_TOOLS_PRIORITY :: "string option"
  DEFAULT_TO_NATIVE_TOOLS :: "string option"
  ALLOW_REQUEST_TOOL_CONTROL :: "string option"
  ENABLE_INLINE_CITATIONS :: "string option"
  INCLUDE_GROUNDING_METADATA :: "string option"
  INCLUDE_SEARCH_ENTRY_POINT :: "string option"

text \<open>
  \<open>NativeToolsEnvSettings\<close>. The field \<open>priority\<close> is declared as the union
  \<open>"native_first" | "custom_first"\<close>, but \<open>parseEnvironmentSettings\<close> fills it with an
  unchecked cast of the environment string, so it is a string here and the comparisons of
  the source (\<open>=== "native_first"\<close>) are string comparisons.
\<close>

record NativeToolsEnvSettings =
  enableNativeTools :: bool
  enableGoogleSearch :: bool
  enableUrlContext :: bool
  priority :: string
  defaultToNativeTools :: bool
  allowRequestControl :: bool
  enableInlineCitations :: bool
  includeGroundingMetadata :: bool
  includeSearchEntryPoint :: bool

text \<open>
  \<open>NativeToolsRequestParams\<close>: every field is optional. A flag is \<open>Some True\<close>,
  \<open>Some False\<close> or \<open>None\<close> (unset); the source tests them with \<open>=== true\<close> and
  \<open>=== false\<close>. The request priority is compared with \<open>=== "native"\<close> and
  \<open>=== "custom"\<close>. The field names carry the prefix \<open>rp\<close> because three of
  them are also field names of \<open>NativeToolsEnvSettings\<close>.
\<close>

record NativeToolsRequestParams =
  rpEnableNativeTools :: "bool option"
  rpEnableSearch :: "bool option"
  rpEnableUrlContext :: "bool option"
  rpNativeToolsPriority :: "string option"

text \<open>
  \<open>NativeTool\<close>: the two descriptors \<open>{ google_search: {} }\<close> and
  \<open>{ url_context: {} }\<close>.
\<close>

datatype NativeTool = GoogleSearch | UrlContext

text \<open>
  \<open>NativeToolsConfiguration\<close>. The custom tools are opaque (type \<open>'t\<close>);
  \<open>customTools: undefined\<close> is \<open>None\<close>.
\<close>

record 't NativeToolsConfiguration =
  useNativeTools :: bool
  useCustomTools :: bool
  nativeTools :: "NativeTool list"
  customTools :: "'t list option"
  cfgPriority :: string
  toolType :: string

section \<open>Operations\<close>

text \<open>
  Modelled from the spec: the constant \<open>NATIVE_TOOLS_DEFAULTS.GEMINI_TOOLS_PRIORITY\<close> is
  imported from \<open>../constants\<close>, which is not among the sources; the specification gives the
  default of the tools-priority variable as \<open>native_first\<close>.
\<close>

definition NATIVE_TOOLS_DEFAULTS_GEMINI_TOOLS_PRIORITY :: string where
  "NATIVE_TOOLS_DEFAULTS_GEMINI_TOOLS_PRIORITY = ''native_first''"

text \<open>
  JavaScript's \<open>a || b\<close> on an optional string: \<open>b\<close> when \<open>a\<close> is \<open>undefined\<close> or
  the empty string, \<open>a\<close> otherwise.
\<close>

fun or_default :: "string option \<Rightarrow> string \<Rightarrow> string" where
  "or_default None d = d"
| "or_default (Some s) d = (if s = [] then d else s)"

definition parseEnvironmentSettings :: "Env \<Rightarrow> NativeToolsEnvSettings" where
  "parseEnvironmentSettings env =
     \<lparr> enableNativeTools = (ENABLE_GEMINI_NATIVE_TOOLS env = Some ''true''),
       enableGoogleSearch = (ENABLE_GOOGLE_SEARCH env = Some ''true''),
       enableUrlContext = (ENABLE_URL_CONTEXT env = Some ''true''),
       priority = or_default (GEMINI_TOOLS_PRIORITY env) NATIVE_TOOLS_DEFAULTS_GEMINI_TOOLS_PRIORITY,
       defaultToNativeTools = (DEFAULT_TO_NATIVE_TOOLS env \<noteq> Some ''false''),
       allowRequestControl = (ALLOW_REQUEST_TOOL_CONTROL env \<noteq> Some ''false''),
       enableInlineCitations = (ENABLE_INLINE_CITATIONS env = Some ''true''),
       includeGroundingMetadata = (INCLUDE_GROUNDING_METADATA env \<noteq> Some ''false''),
       includeSearchEntryPoint = (INCLUDE_SEARCH_ENTRY_POINT env = Some ''true'') \<rparr>"

text \<open>
  \<open>String.prototype.includes\<close>: does \<open>t\<close> occur in \<open>s\<close> as a contiguous block?
\<close>

fun includes_str :: "string \<Rightarrow> string \<Rightarrow> bool" where
  "includes_str [] t = (t = [])"
| "includes_str (c # cs) t = (prefix t (c # cs) \<or> includes_str cs t)"

definition isLegacyModel :: "string \<Rightarrow> bool" where
  "isLegacyModel modelId = includes_str modelId ''gemini-1.5''"

definition shouldEnableGoogleSearch ::
  "NativeToolsEnvSettings \<Rightarrow> NativeToolsRequestParams \<Rightarrow> bool" where
  "shouldEnableGoogleSearch envSettings params =
     (if rpEnableSearch params = Some False then False
      else if rpEnableSearch params = Some True then True
      else enableGoogleSearch envSettings)"

definition shouldEnableUrlContext ::
  "NativeToolsEnvSettings \<Rightarrow> NativeToolsRequestParams \<Rightarrow> bool" where
  "shouldEnableUrlContext envSettings params =
     (if rpEnableUrlContext params = Some False then False
      else if rpEnableUrlContext params = Some True then True
      else enableUrlContext envSettings)"

text \<open>
  \<open>createNativeToolsArray\<close>: the two \<open>push\<close> statements, in order, onto an empty array.
\<close>

definition createNativeToolsArray ::
  "NativeToolsEnvSettings \<Rightarrow> NativeToolsRequestParams \<Rightarrow> string \<Rightarrow> NativeTool list" where
  "createNativeToolsArray envSettings params modelId =
     (let tools = [];
          tools = (if shouldEnableGoogleSearch envSettings params
                   then (if \<not> isLegacyModel modelId then tools @ [GoogleSearch] else tools)
                   else tools);
          tools = (if shouldEnableUrlContext envSettings params
                      \<and> \<not> shouldEnableGoogleSearch envSettings params
                   then tools @ [UrlContext] else tools)
      in tools)"

definition createCustomOnlyConfig :: "'t list \<Rightarrow> 't NativeToolsConfiguration" where
  "createCustomOnlyConfig cts =
     \<lparr> useNativeTools = False,
       useCustomTools = True,
       nativeTools = [],
       customTools = Some cts,
       cfgPriority = ''custom'',
       toolType = ''custom_only'' \<rparr>"

definition createSearchAndUrlConfig ::
  "NativeToolsEnvSettings \<Rightarrow> NativeToolsRequestParams \<Rightarrow> 't list \<Rightarrow> string
     \<Rightarrow> 't NativeToolsConfiguration" where
  "createSearchAndUrlConfig envSettings requestParams cts modelId =
     (let nts = createNativeToolsArray envSettings requestParams modelId in
      if priority envSettings = ''native_first''
           \<or> rpNativeToolsPriority requestParams = Some ''native''
      then \<lparr> useNativeTools = True, useCustomTools = False, nativeTools = nts,
             customTools = None, cfgPriority = ''native'', toolType = ''search_and_url'' \<rparr>
      else if (priority envSettings = ''custom_first''
                 \<or> rpNativeToolsPriority requestParams = Some ''custom'')
               \<and> length cts > 0
      then createCustomOnlyConfig cts
      else \<lparr> useNativeTools = True, useCustomTools = False, nativeTools = nts,
             customTools = None, cfgPriority = ''native'', toolType = ''search_and_url'' \<rparr>)"

text \<open>
  \<open>determineToolConfiguration\<close>, with the constants of the source in the order
  the source computes them.
\<close>

definition determineToolConfiguration ::
  "NativeToolsEnvSettings \<Rightarrow> 't list \<Rightarrow> NativeToolsRequestParams \<Rightarrow> string
     \<Rightarrow> 't NativeToolsConfiguration" where
  "determineToolConfiguration envSettings cts requestParams modelId =
     (let hasCustomTools = length cts > 0;
          nativeToolsAvailable = (enableGoogleSearch envSettings \<or> enableUrlContext envSettings)
      in
      if \<not> enableNativeTools envSettings then createCustomOnlyConfig cts
      else if allowRequestControl envSettings \<and> rpEnableNativeTools requestParams = Some False
      then createCustomOnlyConfig cts
      else
        let nativeRequestedExplicitly =
              (allowRequestControl envSettings
                 \<and> (rpEnableNativeTools requestParams = Some True
                      \<or> rpEnableSearch requestParams = Some True
                      \<or> rpEnableUrlContext requestParams = Some True));
            shouldDefaultToNative = (defaultToNativeTools envSettings \<and> \<not> hasCustomTools);
            shouldConsiderNative =
              (nativeToolsAvailable \<and> (nativeRequestedExplicitly \<or> shouldDefaultToNative))
        in
        if shouldConsiderNative
        then createSearchAndUrlConfig envSettings requestParams cts modelId
        else createCustomOnlyConfig cts)"

text \<open>
  The constructor stores \<open>parseEnvironmentSettings env\<close> in \<open>this.envSettings\<close>; a call of
  the public method on a manager built from \<open>env\<close> is therefore:
\<close>

definition managerDetermineToolConfiguration ::
  "Env \<Rightarrow> 't list \<Rightarrow> NativeToolsRequestParams \<Rightarrow> string \<Rightarrow> 't NativeToolsConfiguration" where
  "managerDetermineToolConfiguration env =
     determineToolConfiguration (parseEnvironmentSettings env)"

section \<open>Auxiliary facts\<close>

lemma includes_str_iff_sublist: "includes_str s t \<longleftrightarrow> sublist t s"
  by (induction s) (auto simp: sublist_Cons_right)


lemma createCustomOnlyConfig_sel [simp]:
  "useNativeTools (createCustomOnlyConfig cts) = False"
  "useCustomTools (createCustomOnlyConfig cts) = True"
  "nativeTools (createCustomOnlyConfig cts) = []"
  "customTools (createCustomOnlyConfig cts) = Some cts"
  "cfgPriority (createCustomOnlyConfig cts) = ''custom''"
  "toolType (createCustomOnlyConfig cts) = ''custom_only''"
  by (simp_all add: createCustomOnlyConfig_def)

lemma createSearchAndUrlConfig_cases:
  "createSearchAndUrlConfig es rp cts m = createCustomOnlyConfig cts
   \<or> createSearchAndUrlConfig es rp cts m =
       \<lparr> useNativeTools = True, useCustomTools = False,
         nativeTools = createNativeToolsArray es rp m,
         customTools = None, cfgPriority = ''native'', toolType = ''search_and_url'' \<rparr>"
  by (simp add: createSearchAndUrlConfig_def Let_def)

lemma determineToolConfiguration_cases:
  "determineToolConfiguration es cts rp m = createCustomOnlyConfig cts
   \<or> determineToolConfiguration es cts rp m =
       \<lparr> useNativeTools = True, useCustomTools = False,
         nativeTools = createNativeToolsArray es rp m,
         customTools = None, cfgPriority = ''native'', toolType = ''search_and_url'' \<rparr>"
  using createSearchAndUrlConfig_cases [of es rp cts m]
  by (auto simp: determineToolConfiguration_def Let_def)

lemma createNativeToolsArray_cases:
  "createNativeToolsArray es rp m =
     (if shouldEnableGoogleSearch es rp
      then (if isLegacyModel m then [] else [GoogleSearch])
      else (if shouldEnableUrlContext es rp then [UrlContext] else []))"
  by (simp add: createNativeToolsArray_def Let_def)

section \<open>The configuration invariant\<close>

text \<open>
  C1. For every environment settings value, every sequence of custom tools, every request
  and every model id, the configuration returned by \<open>determineToolConfiguration\<close> never
  has \<open>useNativeTools\<close> and \<open>useCustomTools\<close> both true; when \<open>useNativeTools\<close> is true
  the field \<open>customTools\<close> is absent, and when \<open>useCustomTools\<close> is true the sequence
  \<open>nativeTools\<close> is empty.
\<close>

theorem C1_native_custom_exclusive:
  "\<not> (useNativeTools (determineToolConfiguration es cts rp m)
        \<and> useCustomTools (determineToolConfiguration es cts rp m))
   \<and> (useNativeTools (determineToolConfiguration es cts rp m)
        \<longrightarrow> customTools (determineToolConfiguration es cts rp m) = None)
   \<and> (useCustomTools (determineToolConfiguration es cts rp m)
        \<longrightarrow> nativeTools (determineToolConfiguration es cts rp m) = [])"
proof -
  consider (custom) "determineToolConfiguration es cts rp m = createCustomOnlyConfig cts"
    | (native) "determineToolConfiguration es cts rp m =
         \<lparr> useNativeTools = True, useCustomTools = False,
           nativeTools = createNativeToolsArray es rp m,
           customTools = None, cfgPriority = ''native'', toolType = ''search_and_url'' \<rparr>"
    using determineToolConfiguration_cases by blast
  then show ?thesis
  proof cases
    case custom
    then show ?thesis by simp
  next
    case native
    then show ?thesis by simp
  qed
qed

text \<open>
  The invariant at two inputs: the first resolves to the native configuration (its
  \<open>customTools\<close> is absent), the second to the custom-only one (its \<open>nativeTools\<close> is
  empty).
\<close>

theorem C1_native_custom_exclusive_witness:
  "useNativeTools (determineToolConfiguration
      \<lparr> enableNativeTools = True, enableGoogleSearch = True, enableUrlContext = True,
        priority = ''native_first'', defaultToNativeTools = True, allowRequestControl = True,
        enableInlineCitations = False, includeGroundingMetadata = True,
        includeSearchEntryPoint = False \<rparr>
      ([] :: string list)
      \<lparr> rpEnableNativeTools = None, rpEnableSearch = None, rpEnableUrlContext = None,
        rpNativeToolsPriority = None \<rparr>
      ''gemini-2.0'')
   \<and> customTools (determineToolConfiguration
      \<lparr> enableNativeTools = True, enableGoogleSearch = True, enableUrlContext = True,
        priority = ''native_first'', defaultToNativeTools = True, allowRequestControl = True,
        enableInlineCitations = False, includeGroundingMetadata = True,
        includeSearchEntryPoint = False \<rparr>
      ([] :: string list)
      \<lparr> rpEnableNativeTools = None, rpEnableSearch = None, rpEnableUrlContext = None,
        rpNativeToolsPriority = None \<rparr>
      ''gemini-2.0'') = None
   \<and> useCustomTools (determineToolConfiguration
      \<lparr> enableNativeTools = True, enableGoogleSearch = True, enableUrlContext = True,
        priority = ''native_first'', defaultToNativeTools = True, allowRequestControl = True,
        enableInlineCitations = False, includeGroundingMetadata = True,
        includeSearchEntryPoint = False \<rparr>
      [''toolA'']
      \<lparr> rpEnableNativeTools = None, rpEnableSearch = None, rpEnableUrlContext = None,
        rpNativeToolsPriority = None \<rparr>
      ''gemini-2.0'')
   \<and> nativeTools (determineToolConfiguration
      \<lparr> enableNativeTools = True, enableGoogleSearch = True, enableUrlContext = True,
        priority = ''native_first'', defaultToNativeTools = True, allowRequestControl = True,
        enableInlineCitations = False, includeGroundingMetadata = True,
        includeSearchEntryPoint = False \<rparr>
      [''toolA'']
      \<lparr> rpEnableNativeTools = None, rpEnableSearch = None, rpEnableUrlContext = None,
        rpNativeToolsPriority = None \<rparr>
      ''gemini-2.0'') = []"
proof -
  let ?es = "\<lparr> enableNativeTools = True, enableGoogleSearch = True, enableUrlContext = True,
        priority = ''native_first'', defaultToNativeTools = True, allowRequestControl = True,
        enableInlineCitations = False, includeGroundingMetadata = True,
        includeSearchEntryPoint = False \<rparr>"
  let ?rp = "\<lparr> rpEnableNativeTools = None, rpEnableSearch = None, rpEnableUrlContext = None,
        rpNativeToolsPriority = None \<rparr>"
  have n: "useNativeTools (determineToolConfiguration ?es ([] :: string list) ?rp ''gemini-2.0'')"
    by (simp add: determineToolConfiguration_def createSearchAndUrlConfig_def Let_def)
  have c: "useCustomTools (determineToolConfiguration ?es [''toolA''] ?rp ''gemini-2.0'')"
    by (simp add: determineToolConfiguration_def Let_def)
  from n c
    C1_native_custom_exclusive [of ?es "[] :: string list" ?rp "''gemini-2.0''"]
    C1_native_custom_exclusive [of ?es "[''toolA'']" ?rp "''gemini-2.0''"]
  show ?thesis by blast
qed

section \<open>Parsing the environment\<close>

text \<open>
  C2 (as stated). If the tools-priority variable is set to a string that is neither
  \<open>native_first\<close> nor \<open>custom_first\<close>, the parsed settings have priority
  \<open>native_first\<close>. This fails: the variable is cast, not validated, and \<open>||\<close> replaces only
  an unset or empty value, so the string \<open>fastest\<close> is stored as the priority.
\<close>

theorem C2_unrecognized_priority_counterexample:
  "''fastest'' \<noteq> ''native_first'' \<and> ''fastest'' \<noteq> ''custom_first''
   \<and> priority (parseEnvironmentSettings
        \<lparr> ENABLE_GEMINI_NATIVE_TOOLS = Some ''true'', ENABLE_GOOGLE_SEARCH = Some ''true'',
          ENABLE_URL_CONTEXT = Some ''true'', GEMINI_TOOLS_PRIORITY = Some ''fastest'',
          DEFAULT_TO_NATIVE_TOOLS = None, ALLOW_REQUEST_TOOL_CONTROL = None,
          ENABLE_INLINE_CITATIONS = None, INCLUDE_GROUNDING_METADATA = None,
          INCLUDE_SEARCH_ENTRY_POINT = None \<rparr>) = ''fastest''
   \<and> priority (parseEnvironmentSettings
        \<lparr> ENABLE_GEMINI_NATIVE_TOOLS = Some ''true'', ENABLE_GOOGLE_SEARCH = Some ''true'',
          ENABLE_URL_CONTEXT = Some ''true'', GEMINI_TOOLS_PRIORITY = Some ''fastest'',
          DEFAULT_TO_NATIVE_TOOLS = None, ALLOW_REQUEST_TOOL_CONTROL = None,
          ENABLE_INLINE_CITATIONS = None, INCLUDE_GROUNDING_METADATA = None,
          INCLUDE_SEARCH_ENTRY_POINT = None \<rparr>) \<noteq> ''native_first''"
  by (simp add: parseEnvironmentSettings_def)

text \<open>
  The difference is visible in the resolved configuration: with the priority \<open>fastest\<close>, a
  request that asks for native tools with priority \<open>custom\<close> and brings a custom tool gets
  the custom-only configuration, where the priority \<open>native_first\<close> gives the native one.
\<close>

lemma unrecognized_priority_is_not_native_first:
  "useCustomTools (managerDetermineToolConfiguration
      \<lparr> ENABLE_GEMINI_NATIVE_TOOLS = Some ''true'', ENABLE_GOOGLE_SEARCH = Some ''true'',
        ENABLE_URL_CONTEXT = Some ''true'', GEMINI_TOOLS_PRIORITY = Some ''fastest'',
        DEFAULT_TO_NATIVE_TOOLS = None, ALLOW_REQUEST_TOOL_CONTROL = None,
        ENABLE_INLINE_CITATIONS = None, INCLUDE_GROUNDING_METADATA = None,
        INCLUDE_SEARCH_ENTRY_POINT = None \<rparr>
      [''toolA'']
      \<lparr> rpEnableNativeTools = Some True, rpEnableSearch = None, rpEnableUrlContext = None,
        rpNativeToolsPriority = Some ''custom'' \<rparr>
      ''gemini-2.0'')
   \<and> useNativeTools (managerDetermineToolConfiguration
      \<lparr> ENABLE_GEMINI_NATIVE_TOOLS = Some ''true'', ENABLE_GOOGLE_SEARCH = Some ''true'',
        ENABLE_URL_CONTEXT = Some ''true'', GEMINI_TOOLS_PRIORITY = Some ''native_first'',
        DEFAULT_TO_NATIVE_TOOLS = None, ALLOW_REQUEST_TOOL_CONTROL = None,
        ENABLE_INLINE_CITATIONS = None, INCLUDE_GROUNDING_METADATA = None,
        INCLUDE_SEARCH_ENTRY_POINT = None \<rparr>
      [''toolA'']
      \<lparr> rpEnableNativeTools = Some True, rpEnableSearch = None, rpEnableUrlContext = None,
        rpNativeToolsPriority = Some ''custom'' \<rparr>
      ''gemini-2.0'')"
  by (simp add: managerDetermineToolConfiguration_def parseEnvironmentSettings_def
      determineToolConfiguration_def createSearchAndUrlConfig_def Let_def)

text \<open>
  C2 (amended). Environment parsing falls back to the default priority \<open>native_first\<close>
  when the tools-priority variable is unset or the empty string; every other string,
  recognized or not, is kept as the priority unchanged.
\<close>

theorem C2_priority_fallback_only_when_unset_or_empty:
  "(GEMINI_TOOLS_PRIORITY env = None \<or> GEMINI_TOOLS_PRIORITY env = Some []
      \<longrightarrow> priority (parseEnvironmentSettings env) = ''native_first'')
   \<and> (\<forall>s. GEMINI_TOOLS_PRIORITY env = Some s \<and> s \<noteq> []
      \<longrightarrow> priority (parseEnvironmentSettings env) = s)"
  by (auto simp: parseEnvironmentSettings_def NATIVE_TOOLS_DEFAULTS_GEMINI_TOOLS_PRIORITY_def)

theorem C2_priority_fallback_only_when_unset_or_empty_witness:
  "priority (parseEnvironmentSettings
      \<lparr> ENABLE_GEMINI_NATIVE_TOOLS = Some ''true'', ENABLE_GOOGLE_SEARCH = Some ''true'',
        ENABLE_URL_CONTEXT = Some ''true'', GEMINI_TOOLS_PRIORITY = None,
        DEFAULT_TO_NATIVE_TOOLS = None, ALLOW_REQUEST_TOOL_CONTROL = None,
        ENABLE_INLINE_CITATIONS = None, INCLUDE_GROUNDING_METADATA = None,
        INCLUDE_SEARCH_ENTRY_POINT = None \<rparr>) = ''native_first''
   \<and> priority (parseEnvironmentSettings
      \<lparr> ENABLE_GEMINI_NATIVE_TOOLS = Some ''true'', ENABLE_GOOGLE_SEARCH = Some ''true'',
        ENABLE_URL_CONTEXT = Some ''true'', GEMINI_TOOLS_PRIORITY = Some ''custom_first'',
        DEFAULT_TO_NATIVE_TOOLS = None, ALLOW_REQUEST_TOOL_CONTROL = None,
        ENABLE_INLINE_CITATIONS = None, INCLUDE_GROUNDING_METADATA = None,
        INCLUDE_SEARCH_ENTRY_POINT = None \<rparr>) = ''custom_first''"
proof -
  let ?unset = "\<lparr> ENABLE_GEMINI_NATIVE_TOOLS = Some ''true'', ENABLE_GOOGLE_SEARCH = Some ''true'',
        ENABLE_URL_CONTEXT = Some ''true'', GEMINI_TOOLS_PRIORITY = None,
        DEFAULT_TO_NATIVE_TOOLS = None, ALLOW_REQUEST_TOOL_CONTROL = None,
        ENABLE_INLINE_CITATIONS = None, INCLUDE_GROUNDING_METADATA = None,
        INCLUDE_SEARCH_ENTRY_POINT = None \<rparr>"
  let ?set = "\<lparr> ENABLE_GEMINI_NATIVE_TOOLS = Some ''true'', ENABLE_GOOGLE_SEARCH = Some ''true'',
        ENABLE_URL_CONTEXT = Some ''true'', GEMINI_TOOLS_PRIORITY = Some ''custom_first'',
        DEFAULT_TO_NATIVE_TOOLS = None, ALLOW_REQUEST_TOOL_CONTROL = None,
        ENABLE_INLINE_CITATIONS = None, INCLUDE_GROUNDING_METADATA = None,
        INCLUDE_SEARCH_ENTRY_POINT = None \<rparr>"
  have u: "GEMINI_TOOLS_PRIORITY ?unset = None" by simp
  have s: "GEMINI_TOOLS_PRIORITY ?set = Some ''custom_first'' \<and> ''custom_first'' \<noteq> []" by simp
  from u C2_priority_fallback_only_when_unset_or_empty [of ?unset]
  have "priority (parseEnvironmentSettings ?unset) = ''native_first''" by blast
  moreover from s C2_priority_fallback_only_when_unset_or_empty [of ?set]
  have "priority (parseEnvironmentSettings ?set) = ''custom_first''" by blast
  ultimately show ?thesis by blast
qed

section \<open>The decision order of \<open>determineToolConfiguration\<close>\<close>

text \<open>
  C3. With native tools enabled and request control allowed in the environment, a
  non-empty sequence of custom tools, any model id, and a request that sets none of
  \<open>enableNativeTools\<close>, \<open>enableSearch\<close>, \<open>enableUrlContext\<close> to true, the result is the
  custom-only configuration: default-to-native does not enable native tools when custom
  tools are present.
\<close>

theorem C3_custom_tools_suppress_default_to_native:
  assumes "enableNativeTools es" and "allowRequestControl es" and "cts \<noteq> []"
    and "rpEnableNativeTools rp \<noteq> Some True"
    and "rpEnableSearch rp \<noteq> Some True"
    and "rpEnableUrlContext rp \<noteq> Some True"
  shows "determineToolConfiguration es cts rp m = createCustomOnlyConfig cts"
  using assms by (simp add: determineToolConfiguration_def Let_def)

theorem C3_custom_tools_suppress_default_to_native_witness:
  "determineToolConfiguration
      \<lparr> enableNativeTools = True, enableGoogleSearch = True, enableUrlContext = True,
        priority = ''native_first'', defaultToNativeTools = True, allowRequestControl = True,
        enableInlineCitations = False, includeGroundingMetadata = True,
        includeSearchEntryPoint = False \<rparr>
      [''toolA'']
      \<lparr> rpEnableNativeTools = None, rpEnableSearch = None, rpEnableUrlContext = None,
        rpNativeToolsPriority = None \<rparr>
      ''gemini-2.0''
   = \<lparr> useNativeTools = False, useCustomTools = True, nativeTools = [],
       customTools = Some [''toolA''], cfgPriority = ''custom'', toolType = ''custom_only'' \<rparr>"
  using C3_custom_tools_suppress_default_to_native
    [of "\<lparr> enableNativeTools = True, enableGoogleSearch = True, enableUrlContext = True,
        priority = ''native_first'', defaultToNativeTools = True, allowRequestControl = True,
        enableInlineCitations = False, includeGroundingMetadata = True,
        includeSearchEntryPoint = False \<rparr>"
      "[''toolA'']"
      "\<lparr> rpEnableNativeTools = None, rpEnableSearch = None, rpEnableUrlContext = None,
        rpNativeToolsPriority = None \<rparr>"
      "''gemini-2.0''"]
  by (simp add: createCustomOnlyConfig_def)

text \<open>
  C4. If the environment settings have \<open>enableNativeTools\<close> false, then for every
  request, every sequence of custom tools and every model id the result is the custom-only
  configuration: \<open>useNativeTools\<close> false, \<open>useCustomTools\<close> true, \<open>nativeTools\<close> empty,
  the custom tools passed through unchanged, priority \<open>custom\<close>, tool type
  \<open>custom_only\<close>.
\<close>

theorem C4_native_disabled_gives_custom_only:
  assumes "\<not> enableNativeTools es"
  shows "determineToolConfiguration es cts rp m =
     \<lparr> useNativeTools = False, useCustomTools = True, nativeTools = [],
       customTools = Some cts, cfgPriority = ''custom'', toolType = ''custom_only'' \<rparr>"
  using assms by (simp add: determineToolConfiguration_def createCustomOnlyConfig_def Let_def)

theorem C4_native_disabled_gives_custom_only_witness:
  "determineToolConfiguration
      \<lparr> enableNativeTools = False, enableGoogleSearch = True, enableUrlContext = True,
        priority = ''native_first'', defaultToNativeTools = True, allowRequestControl = True,
        enableInlineCitations = False, includeGroundingMetadata = True,
        includeSearchEntryPoint = False \<rparr>
      [''toolA'', ''toolB'']
      \<lparr> rpEnableNativeTools = Some True, rpEnableSearch = Some True,
        rpEnableUrlContext = Some True, rpNativeToolsPriority = Some ''native'' \<rparr>
      ''gemini-2.0''
   = \<lparr> useNativeTools = False, useCustomTools = True, nativeTools = [],
       customTools = Some [''toolA'', ''toolB''], cfgPriority = ''custom'',
       toolType = ''custom_only'' \<rparr>"
  using C4_native_disabled_gives_custom_only
    [of "\<lparr> enableNativeTools = False, enableGoogleSearch = True, enableUrlContext = True,
        priority = ''native_first'', defaultToNativeTools = True, allowRequestControl = True,
        enableInlineCitations = False, includeGroundingMetadata = True,
        includeSearchEntryPoint = False \<rparr>"
      "[''toolA'', ''toolB'']"
      "\<lparr> rpEnableNativeTools = Some True, rpEnableSearch = Some True,
        rpEnableUrlContext = Some True, rpNativeToolsPriority = Some ''native'' \<rparr>"
      "''gemini-2.0''"]
  by simp

text \<open>
  C5. If the environment allows request control and the request sets
  \<open>enableNativeTools\<close> to false, the result is the custom-only configuration, whatever
  the other environment settings are (in particular with native tools enabled and
  default-to-native true).
\<close>

theorem C5_request_disable_gives_custom_only:
  assumes "allowRequestControl es" and "rpEnableNativeTools rp = Some False"
  shows "determineToolConfiguration es cts rp m = createCustomOnlyConfig cts"
  using assms by (simp add: determineToolConfiguration_def Let_def)

theorem C5_request_disable_gives_custom_only_witness:
  "determineToolConfiguration
      \<lparr> enableNativeTools = True, enableGoogleSearch = True, enableUrlContext = True,
        priority = ''native_first'', defaultToNativeTools = True, allowRequestControl = True,
        enableInlineCitations = False, includeGroundingMetadata = True,
        includeSearchEntryPoint = False \<rparr>
      ([] :: string list)
      \<lparr> rpEnableNativeTools = Some False, rpEnableSearch = Some True,
        rpEnableUrlContext = None, rpNativeToolsPriority = Some ''native'' \<rparr>
      ''gemini-2.0''
   = \<lparr> useNativeTools = False, useCustomTools = True, nativeTools = [],
       customTools = Some [], cfgPriority = ''custom'', toolType = ''custom_only'' \<rparr>"
  using C5_request_disable_gives_custom_only
    [of "\<lparr> enableNativeTools = True, enableGoogleSearch = True, enableUrlContext = True,
        priority = ''native_first'', defaultToNativeTools = True, allowRequestControl = True,
        enableInlineCitations = False, includeGroundingMetadata = True,
        includeSearchEntryPoint = False \<rparr>"
      "\<lparr> rpEnableNativeTools = Some False, rpEnableSearch = Some True,
        rpEnableUrlContext = None, rpNativeToolsPriority = Some ''native'' \<rparr>"
      "[] :: string list"
      "''gemini-2.0''"]
  by (simp add: createCustomOnlyConfig_def)

section \<open>The native/custom tie-break\<close>

text \<open>
  C6. When the tie-break is reached and the sequence of custom tools is empty, the result
  is the native configuration (\<open>useNativeTools\<close> true, \<open>useCustomTools\<close> false, priority
  \<open>native\<close>, tool type \<open>search_and_url\<close>), whatever the environment priority and the
  request priority are. The first conjunct is the tie-break itself,
  \<open>createSearchAndUrlConfig\<close>; the second is \<open>determineToolConfiguration\<close> under the
  conditions by which it reaches the tie-break (native tools enabled, no honoured request
  to disable them, a native tool available, and an honoured explicit request or
  default-to-native).
\<close>

theorem C6_tie_break_without_custom_tools_is_native:
  "createSearchAndUrlConfig es rp ([] :: 't list) m =
     \<lparr> useNativeTools = True, useCustomTools = False,
       nativeTools = createNativeToolsArray es rp m,
       customTools = None, cfgPriority = ''native'', toolType = ''search_and_url'' \<rparr>
   \<and> (enableNativeTools es
        \<and> \<not> (allowRequestControl es \<and> rpEnableNativeTools rp = Some False)
        \<and> (enableGoogleSearch es \<or> enableUrlContext es)
        \<and> ((allowRequestControl es
               \<and> (rpEnableNativeTools rp = Some True \<or> rpEnableSearch rp = Some True
                    \<or> rpEnableUrlContext rp = Some True))
             \<or> defaultToNativeTools es)
      \<longrightarrow> determineToolConfiguration es ([] :: 't list) rp m =
            \<lparr> useNativeTools = True, useCustomTools = False,
              nativeTools = createNativeToolsArray es rp m,
              customTools = None, cfgPriority = ''native'', toolType = ''search_and_url'' \<rparr>)"
proof -
  have tie: "createSearchAndUrlConfig es rp ([] :: 't list) m =
     \<lparr> useNativeTools = True, useCustomTools = False,
       nativeTools = createNativeToolsArray es rp m,
       customTools = None, cfgPriority = ''native'', toolType = ''search_and_url'' \<rparr>"
    by (simp add: createSearchAndUrlConfig_def Let_def)
  show ?thesis
    unfolding tie [symmetric]
    by (auto simp: determineToolConfiguration_def Let_def)
qed

text \<open>
  The instance of the specification: environment priority \<open>custom_first\<close>, request
  \<open>{enableNativeTools: true}\<close> with request priority \<open>custom\<close>, no custom tools.
\<close>

theorem C6_tie_break_without_custom_tools_is_native_witness:
  "determineToolConfiguration
      \<lparr> enableNativeTools = True, enableGoogleSearch = True, enableUrlContext = True,
        priority = ''custom_first'', defaultToNativeTools = False, allowRequestControl = True,
        enableInlineCitations = False, includeGroundingMetadata = True,
        includeSearchEntryPoint = False \<rparr>
      ([] :: string list)
      \<lparr> rpEnableNativeTools = Some True, rpEnableSearch = None, rpEnableUrlContext = None,
        rpNativeToolsPriority = Some ''custom'' \<rparr>
      ''gemini-2.0''
   = \<lparr> useNativeTools = True, useCustomTools = False, nativeTools = [GoogleSearch],
       customTools = None, cfgPriority = ''native'', toolType = ''search_and_url'' \<rparr>"
proof -
  let ?es = "\<lparr> enableNativeTools = True, enableGoogleSearch = True, enableUrlContext = True,
        priority = ''custom_first'', defaultToNativeTools = False, allowRequestControl = True,
        enableInlineCitations = False, includeGroundingMetadata = True,
        includeSearchEntryPoint = False \<rparr>"
  let ?rp = "\<lparr> rpEnableNativeTools = Some True, rpEnableSearch = None,
        rpEnableUrlContext = None, rpNativeToolsPriority = Some ''custom'' \<rparr>"
  have nts: "createNativeToolsArray ?es ?rp ''gemini-2.0'' = [GoogleSearch]"
    by (simp add: createNativeToolsArray_cases shouldEnableGoogleSearch_def isLegacyModel_def)
  show ?thesis
    using C6_tie_break_without_custom_tools_is_native
      [where ?'t = string, of ?es ?rp "''gemini-2.0''"]
    by (simp add: nts)
qed

section \<open>The native tool descriptors\<close>

text \<open>
  C7. For every request and every model id that contains the legacy marker
  \<open>gemini-1.5\<close>, the sequence returned by \<open>createNativeToolsArray\<close> contains no
  \<open>googleSearch\<close> descriptor, also when Search resolves to enabled.
\<close>

theorem C7_legacy_model_never_gets_search:
  assumes "isLegacyModel m"
  shows "GoogleSearch \<notin> set (createNativeToolsArray es rp m)"
  using assms by (simp add: createNativeToolsArray_cases)

theorem C7_legacy_model_never_gets_search_witness:
  "isLegacyModel ''models/gemini-1.5-pro''
   \<and> shouldEnableGoogleSearch
        \<lparr> enableNativeTools = True, enableGoogleSearch = True, enableUrlContext = True,
          priority = ''native_first'', defaultToNativeTools = True,
          allowRequestControl = True, enableInlineCitations = False,
          includeGroundingMetadata = True, includeSearchEntryPoint = False \<rparr>
        \<lparr> rpEnableNativeTools = None, rpEnableSearch = Some True, rpEnableUrlContext = None,
          rpNativeToolsPriority = None \<rparr>
   \<and> GoogleSearch \<notin> set (createNativeToolsArray
        \<lparr> enableNativeTools = True, enableGoogleSearch = True, enableUrlContext = True,
          priority = ''native_first'', defaultToNativeTools = True,
          allowRequestControl = True, enableInlineCitations = False,
          includeGroundingMetadata = True, includeSearchEntryPoint = False \<rparr>
        \<lparr> rpEnableNativeTools = None, rpEnableSearch = Some True, rpEnableUrlContext = None,
          rpNativeToolsPriority = None \<rparr>
        ''models/gemini-1.5-pro'')"
proof -
  have legacy: "isLegacyModel ''models/gemini-1.5-pro''"
    by (simp add: isLegacyModel_def)
  show ?thesis
    using legacy C7_legacy_model_never_gets_search [OF legacy]
    by (simp add: shouldEnableGoogleSearch_def)
qed

text \<open>
  C8. The sequence returned by \<open>createNativeToolsArray\<close> never contains both a
  \<open>googleSearch\<close> and a \<open>urlContext\<close> descriptor: a \<open>urlContext\<close> descriptor is emitted
  only when Search does not resolve to enabled.
\<close>

theorem C8_search_and_url_never_both:
  "\<not> (GoogleSearch \<in> set (createNativeToolsArray es rp m)
        \<and> UrlContext \<in> set (createNativeToolsArray es rp m))
   \<and> (UrlContext \<in> set (createNativeToolsArray es rp m)
        \<longrightarrow> \<not> shouldEnableGoogleSearch es rp)"
  by (simp add: createNativeToolsArray_cases)

theorem C8_search_and_url_never_both_witness:
  "UrlContext \<in> set (createNativeToolsArray
        \<lparr> enableNativeTools = True, enableGoogleSearch = True, enableUrlContext = True,
          priority = ''native_first'', defaultToNativeTools = True,
          allowRequestControl = True, enableInlineCitations = False,
          includeGroundingMetadata = True, includeSearchEntryPoint = False \<rparr>
        \<lparr> rpEnableNativeTools = None, rpEnableSearch = Some False, rpEnableUrlContext = None,
          rpNativeToolsPriority = None \<rparr>
        ''gemini-2.0'')
   \<and> \<not> shouldEnableGoogleSearch
        \<lparr> enableNativeTools = True, enableGoogleSearch = True, enableUrlContext = True,
          priority = ''native_first'', defaultToNativeTools = True,
          allowRequestControl = True, enableInlineCitations = False,
          includeGroundingMetadata = True, includeSearchEntryPoint = False \<rparr>
        \<lparr> rpEnableNativeTools = None, rpEnableSearch = Some False, rpEnableUrlContext = None,
          rpNativeToolsPriority = None \<rparr>
   \<and> GoogleSearch \<notin> set (createNativeToolsArray
        \<lparr> enableNativeTools = True, enableGoogleSearch = True, enableUrlContext = True,
          priority = ''native_first'', defaultToNativeTools = True,
          allowRequestControl = True, enableInlineCitations = False,
          includeGroundingMetadata = True, includeSearchEntryPoint = False \<rparr>
        \<lparr> rpEnableNativeTools = None, rpEnableSearch = Some False, rpEnableUrlContext = None,
          rpNativeToolsPriority = None \<rparr>
        ''gemini-2.0'')"
proof -
  let ?es = "\<lparr> enableNativeTools = True, enableGoogleSearch = True, enableUrlContext = True,
          priority = ''native_first'', defaultToNativeTools = True,
          allowRequestControl = True, enableInlineCitations = False,
          includeGroundingMetadata = True, includeSearchEntryPoint = False \<rparr>"
  let ?rp = "\<lparr> rpEnableNativeTools = None, rpEnableSearch = Some False,
          rpEnableUrlContext = None, rpNativeToolsPriority = None \<rparr>"
  have url: "UrlContext \<in> set (createNativeToolsArray ?es ?rp ''gemini-2.0'')"
    by (simp add: createNativeToolsArray_cases shouldEnableGoogleSearch_def
        shouldEnableUrlContext_def)
  from url C8_search_and_url_never_both [of ?es ?rp "''gemini-2.0''"]
  show ?thesis by blast
qed

section \<open>Request control and the per-feature overrides\<close>

text \<open>
  C9. The per-feature overrides of the request are honoured also when request control
  is disallowed. \<open>createNativeToolsArray\<close> does not read \<open>allowRequestControl\<close> at all
  (first conjunct). With \<open>allowRequestControl\<close> false, a request with
  \<open>enableSearch = false\<close> suppresses the \<open>googleSearch\<close> descriptor and one with
  \<open>enableUrlContext = false\<close> suppresses the \<open>urlContext\<close> descriptor; a native result of
  \<open>determineToolConfiguration\<close> carries exactly that sequence; and whether the result is
  native does not depend on the three request flags, which \<open>allowRequestControl\<close> gates.
  The last conjunct shows that the default-to-native path does reach
  \<open>createNativeToolsArray\<close> with request control disallowed: the environment enables
  Search, the request switches it off, and the native result has no \<open>googleSearch\<close>.
\<close>

theorem C9_feature_overrides_not_gated_by_request_control:
  "createNativeToolsArray (es\<lparr>allowRequestControl := b\<rparr>) rp m = createNativeToolsArray es rp m
   \<and> (\<not> allowRequestControl es \<longrightarrow>
        (rpEnableSearch rp = Some False
           \<longrightarrow> GoogleSearch \<notin> set (createNativeToolsArray es rp m))
      \<and> (rpEnableUrlContext rp = Some False
           \<longrightarrow> UrlContext \<notin> set (createNativeToolsArray es rp m))
      \<and> (useNativeTools (determineToolConfiguration es (cts :: 't list) rp m)
           \<longrightarrow> nativeTools (determineToolConfiguration es cts rp m)
                 = createNativeToolsArray es rp m)
      \<and> useNativeTools (determineToolConfiguration es cts
            (rp\<lparr>rpEnableNativeTools := f1, rpEnableSearch := f2, rpEnableUrlContext := f3\<rparr>) m)
          = useNativeTools (determineToolConfiguration es cts rp m))
   \<and> (\<exists>es' rp' m'. \<not> allowRequestControl es' \<and> enableGoogleSearch es'
        \<and> rpEnableSearch rp' = Some False
        \<and> useNativeTools (determineToolConfiguration es' ([] :: 't list) rp' m')
        \<and> nativeTools (determineToolConfiguration es' ([] :: 't list) rp' m') = [UrlContext])"
proof -
  have indep: "createNativeToolsArray (es\<lparr>allowRequestControl := b\<rparr>) rp m
        = createNativeToolsArray es rp m"
    by (simp add: createNativeToolsArray_cases shouldEnableGoogleSearch_def
        shouldEnableUrlContext_def)
  have search: "rpEnableSearch rp = Some False
      \<longrightarrow> GoogleSearch \<notin> set (createNativeToolsArray es rp m)"
    by (simp add: createNativeToolsArray_cases shouldEnableGoogleSearch_def)
  have url: "rpEnableUrlContext rp = Some False
      \<longrightarrow> UrlContext \<notin> set (createNativeToolsArray es rp m)"
    by (simp add: createNativeToolsArray_cases shouldEnableUrlContext_def)
  have carried: "useNativeTools (determineToolConfiguration es cts rp m)
      \<longrightarrow> nativeTools (determineToolConfiguration es cts rp m)
            = createNativeToolsArray es rp m"
    using determineToolConfiguration_cases [of es cts rp m] by auto
  have flags: "\<not> allowRequestControl es \<longrightarrow>
      useNativeTools (determineToolConfiguration es cts
            (rp\<lparr>rpEnableNativeTools := f1, rpEnableSearch := f2, rpEnableUrlContext := f3\<rparr>) m)
          = useNativeTools (determineToolConfiguration es cts rp m)"
    by (auto simp: determineToolConfiguration_def createSearchAndUrlConfig_def Let_def)
  let ?es = "\<lparr> enableNativeTools = True, enableGoogleSearch = True, enableUrlContext = True,
        priority = ''native_first'', defaultToNativeTools = True, allowRequestControl = False,
        enableInlineCitations = False, includeGroundingMetadata = True,
        includeSearchEntryPoint = False \<rparr>"
  let ?rp = "\<lparr> rpEnableNativeTools = None, rpEnableSearch = Some False,
        rpEnableUrlContext = None, rpNativeToolsPriority = None \<rparr>"
  have "\<not> allowRequestControl ?es \<and> enableGoogleSearch ?es
        \<and> rpEnableSearch ?rp = Some False
        \<and> useNativeTools (determineToolConfiguration ?es ([] :: 't list) ?rp ''gemini-2.0'')
        \<and> nativeTools (determineToolConfiguration ?es ([] :: 't list) ?rp ''gemini-2.0'')
            = [UrlContext]"
    by (simp add: determineToolConfiguration_def createSearchAndUrlConfig_def Let_def
        createNativeToolsArray_cases shouldEnableGoogleSearch_def shouldEnableUrlContext_def)
  then have reach: "\<exists>es' rp' m'. \<not> allowRequestControl es' \<and> enableGoogleSearch es'
        \<and> rpEnableSearch rp' = Some False
        \<and> useNativeTools (determineToolConfiguration es' ([] :: 't list) rp' m')
        \<and> nativeTools (determineToolConfiguration es' ([] :: 't list) rp' m') = [UrlContext]"
    by blast
  from indep search url carried flags reach show ?thesis
    by (intro conjI impI) blast+
qed

text \<open>
  Two inputs with request control disallowed that reach \<open>createNativeToolsArray\<close> by
  default-to-native. In the first the environment enables Search and URL Context and the
  request switches Search off: only \<open>urlContext\<close> is emitted. In the second the
  environment enables URL Context only and the request switches it off: nothing is emitted.
\<close>

theorem C9_feature_overrides_not_gated_by_request_control_witness:
  "determineToolConfiguration
      \<lparr> enableNativeTools = True, enableGoogleSearch = True, enableUrlContext = True,
        priority = ''native_first'', defaultToNativeTools = True, allowRequestControl = False,
        enableInlineCitations = False, includeGroundingMetadata = True,
        includeSearchEntryPoint = False \<rparr>
      ([] :: string list)
      \<lparr> rpEnableNativeTools = None, rpEnableSearch = Some False, rpEnableUrlContext = None,
        rpNativeToolsPriority = None \<rparr>
      ''gemini-2.0''
   = \<lparr> useNativeTools = True, useCustomTools = False, nativeTools = [UrlContext],
       customTools = None, cfgPriority = ''native'', toolType = ''search_and_url'' \<rparr>
   \<and> GoogleSearch \<notin> set (createNativeToolsArray
      \<lparr> enableNativeTools = True, enableGoogleSearch = True, enableUrlContext = True,
        priority = ''native_first'', defaultToNativeTools = True, allowRequestControl = False,
        enableInlineCitations = False, includeGroundingMetadata = True,
        includeSearchEntryPoint = False \<rparr>
      \<lparr> rpEnableNativeTools = None, rpEnableSearch = Some False, rpEnableUrlContext = None,
        rpNativeToolsPriority = None \<rparr>
      ''gemini-2.0'')
   \<and> determineToolConfiguration
      \<lparr> enableNativeTools = True, enableGoogleSearch = False, enableUrlContext = True,
        priority = ''native_first'', defaultToNativeTools = True, allowRequestControl = False,
        enableInlineCitations = False, includeGroundingMetadata = True,
        includeSearchEntryPoint = False \<rparr>
      ([] :: string list)
      \<lparr> rpEnableNativeTools = None, rpEnableSearch = None, rpEnableUrlContext = Some False,
        rpNativeToolsPriority = None \<rparr>
      ''gemini-2.0''
   = \<lparr> useNativeTools = True, useCustomTools = False, nativeTools = [],
       customTools = None, cfgPriority = ''native'', toolType = ''search_and_url'' \<rparr>
   \<and> UrlContext \<notin> set (createNativeToolsArray
      \<lparr> enableNativeTools = True, enableGoogleSearch = False, enableUrlContext = True,
        priority = ''native_first'', defaultToNativeTools = True, allowRequestControl = False,
        enableInlineCitations = False, includeGroundingMetadata = True,
        includeSearchEntryPoint = False \<rparr>
      \<lparr> rpEnableNativeTools = None, rpEnableSearch = None, rpEnableUrlContext = Some False,
        rpNativeToolsPriority = None \<rparr>
      ''gemini-2.0'')"
proof -
  let ?es1 = "\<lparr> enableNativeTools = True, enableGoogleSearch = True, enableUrlContext = True,
        priority = ''native_first'', defaultToNativeTools = True, allowRequestControl = False,
        enableInlineCitations = False, includeGroundingMetadata = True,
        includeSearchEntryPoint = False \<rparr>"
  let ?rp1 = "\<lparr> rpEnableNativeTools = None, rpEnableSearch = Some False,
        rpEnableUrlContext = None, rpNativeToolsPriority = None \<rparr>"
  let ?es2 = "\<lparr> enableNativeTools = True, enableGoogleSearch = False, enableUrlContext = True,
        priority = ''native_first'', defaultToNativeTools = True, allowRequestControl = False,
        enableInlineCitations = False, includeGroundingMetadata = True,
        includeSearchEntryPoint = False \<rparr>"
  let ?rp2 = "\<lparr> rpEnableNativeTools = None, rpEnableSearch = None,
        rpEnableUrlContext = Some False, rpNativeToolsPriority = None \<rparr>"
  have d1: "determineToolConfiguration ?es1 ([] :: string list) ?rp1 ''gemini-2.0''
      = \<lparr> useNativeTools = True, useCustomTools = False, nativeTools = [UrlContext],
          customTools = None, cfgPriority = ''native'', toolType = ''search_and_url'' \<rparr>"
    by (simp add: determineToolConfiguration_def createSearchAndUrlConfig_def Let_def
        createNativeToolsArray_cases shouldEnableGoogleSearch_def shouldEnableUrlContext_def)
  have d2: "determineToolConfiguration ?es2 ([] :: string list) ?rp2 ''gemini-2.0''
      = \<lparr> useNativeTools = True, useCustomTools = False, nativeTools = [],
          customTools = None, cfgPriority = ''native'', toolType = ''search_and_url'' \<rparr>"
    by (simp add: determineToolConfiguration_def createSearchAndUrlConfig_def Let_def
        createNativeToolsArray_cases shouldEnableGoogleSearch_def shouldEnableUrlContext_def)
  have h1: "\<not> allowRequestControl ?es1 \<and> rpEnableSearch ?rp1 = Some False" by simp
  have h2: "\<not> allowRequestControl ?es2 \<and> rpEnableUrlContext ?rp2 = Some False" by simp
  from h1 C9_feature_overrides_not_gated_by_request_control
      [where ?'t = string and es = ?es1 and rp = ?rp1 and m = "''gemini-2.0''"]
  have g: "GoogleSearch \<notin> set (createNativeToolsArray ?es1 ?rp1 ''gemini-2.0'')"
    by blast
  from h2 C9_feature_overrides_not_gated_by_request_control
      [where ?'t = string and es = ?es2 and rp = ?rp2 and m = "''gemini-2.0''"]
  have u: "UrlContext \<notin> set (createNativeToolsArray ?es2 ?rp2 ''gemini-2.0'')"
    by blast
  from d1 d2 g u show ?thesis by blast
qed

text \<open>
  C10. Some inputs give a configuration with \<open>useNativeTools\<close> true and an empty
  \<open>nativeTools\<close> sequence: one where Search resolves to enabled, the model id contains
  the legacy marker and URL Context does not resolve to enabled; and one where the
  request sets \<open>enableNativeTools\<close> to true and both \<open>enableSearch\<close> and
  \<open>enableUrlContext\<close> to false.
\<close>

theorem C10_native_configuration_with_no_native_tool:
  "(\<exists>es rp m. shouldEnableGoogleSearch es rp \<and> isLegacyModel m
        \<and> \<not> shouldEnableUrlContext es rp
        \<and> useNativeTools (determineToolConfiguration es ([] :: 't list) rp m)
        \<and> nativeTools (determineToolConfiguration es ([] :: 't list) rp m) = [])
   \<and> (\<exists>es rp m. rpEnableNativeTools rp = Some True \<and> rpEnableSearch rp = Some False
        \<and> rpEnableUrlContext rp = Some False
        \<and> useNativeTools (determineToolConfiguration es ([] :: 't list) rp m)
        \<and> nativeTools (determineToolConfiguration es ([] :: 't list) rp m) = [])"
proof
  let ?es = "\<lparr> enableNativeTools = True, enableGoogleSearch = True, enableUrlContext = False,
        priority = ''native_first'', defaultToNativeTools = True, allowRequestControl = True,
        enableInlineCitations = False, includeGroundingMetadata = True,
        includeSearchEntryPoint = False \<rparr>"
  let ?rp = "\<lparr> rpEnableNativeTools = None, rpEnableSearch = None, rpEnableUrlContext = None,
        rpNativeToolsPriority = None \<rparr>"
  have legacy: "isLegacyModel ''gemini-1.5-flash''"
    by (simp add: isLegacyModel_def)
  have "shouldEnableGoogleSearch ?es ?rp \<and> isLegacyModel ''gemini-1.5-flash''
        \<and> \<not> shouldEnableUrlContext ?es ?rp
        \<and> useNativeTools (determineToolConfiguration ?es ([] :: 't list) ?rp ''gemini-1.5-flash'')
        \<and> nativeTools (determineToolConfiguration ?es ([] :: 't list) ?rp ''gemini-1.5-flash'')
            = []"
    using legacy
    by (simp add: determineToolConfiguration_def createSearchAndUrlConfig_def Let_def
        createNativeToolsArray_cases shouldEnableGoogleSearch_def shouldEnableUrlContext_def)
  then show "\<exists>es rp m. shouldEnableGoogleSearch es rp \<and> isLegacyModel m
        \<and> \<not> shouldEnableUrlContext es rp
        \<and> useNativeTools (determineToolConfiguration es ([] :: 't list) rp m)
        \<and> nativeTools (determineToolConfiguration es ([] :: 't list) rp m) = []"
    by blast
next
  let ?es = "\<lparr> enableNativeTools = True, enableGoogleSearch = True, enableUrlContext = True,
        priority = ''native_first'', defaultToNativeTools = True, allowRequestControl = True,
        enableInlineCitations = False, includeGroundingMetadata = True,
        includeSearchEntryPoint = False \<rparr>"
  let ?rp = "\<lparr> rpEnableNativeTools = Some True, rpEnableSearch = Some False,
        rpEnableUrlContext = Some False, rpNativeToolsPriority = None \<rparr>"
  have "rpEnableNativeTools ?rp = Some True \<and> rpEnableSearch ?rp = Some False
        \<and> rpEnableUrlContext ?rp = Some False
        \<and> useNativeTools (determineToolConfiguration ?es ([] :: 't list) ?rp ''gemini-2.0'')
        \<and> nativeTools (determineToolConfiguration ?es ([] :: 't list) ?rp ''gemini-2.0'') = []"
    by (simp add: determineToolConfiguration_def createSearchAndUrlConfig_def Let_def
        createNativeToolsArray_cases shouldEnableGoogleSearch_def shouldEnableUrlContext_def)
  then show "\<exists>es rp m. rpEnableNativeTools rp = Some True \<and> rpEnableSearch rp = Some False
        \<and> rpEnableUrlContext rp = Some False
        \<and> useNativeTools (determineToolConfiguration es ([] :: 't list) rp m)
        \<and> nativeTools (determineToolConfiguration es ([] :: 't list) rp m) = []"
    by blast
qed

end
